theory Spec2Isabelle
  imports Complex_Main
begin

section \<open>JavaScript string operations used by server.js\<close>

text \<open>
  Strings are character lists. \<open>split_str\<close> is \<^verbatim>\<open>s.split("-")\<close> for a one-character
  separator: the result is never empty, and the empty string splits into one empty
  segment. \<open>join_str\<close> is \<^verbatim>\<open>segs.join("-")\<close>, \<open>slice_from\<close> is \<^verbatim>\<open>segs.slice(1)\<close>
  and \<open>substring\<close> is \<^verbatim>\<open>s.substring(a, b)\<close>, which clamps both indices to the length
  and swaps them when they come in the wrong order.
\<close>

fun split_str :: "char \<Rightarrow> string \<Rightarrow> string list" where
  "split_str sep [] = [[]]"
| "split_str sep (c # cs) =
     (if c = sep then [] # split_str sep cs
      else (case split_str sep cs of
              [] \<Rightarrow> [[c]]
            | seg # segs \<Rightarrow> (c # seg) # segs))"

fun join_str :: "string \<Rightarrow> string list \<Rightarrow> string" where
  "join_str sep [] = []"
| "join_str sep [seg] = seg"
| "join_str sep (seg # nxt # segs) = seg @ sep @ join_str sep (nxt # segs)"

definition slice_from :: "nat \<Rightarrow> 'a list \<Rightarrow> 'a list" where
  "slice_from n xs = drop n xs"

definition substring :: "string \<Rightarrow> nat \<Rightarrow> nat \<Rightarrow> string" where
  "substring s a b = (let lo = min a b; hi = max a b in take (hi - lo) (drop lo s))"

text \<open>
  \<^verbatim>\<open>n.toString(radix)\<close> for a non-negative integer \<open>n\<close>: digits \<open>0\<close> to \<open>9\<close>, then
  lower-case letters.
\<close>

definition digit_chars :: string where
  "digit_chars = ''0123456789abcdefghijklmnopqrstuvwxyz''"

definition digit_char :: "nat \<Rightarrow> char" where
  "digit_char d = digit_chars ! (d mod 36)"

function toString_radix :: "nat \<Rightarrow> nat \<Rightarrow> string" where
  "toString_radix radix n =
     (if n < radix \<or> radix < 2 then [digit_char n]
      else toString_radix radix (n div radix) @ [digit_char (n mod radix)])"
  by pat_completeness auto
termination
  by (relation "measure (\<lambda>(radix, n). n)") auto

declare toString_radix.simps [simp del]

text \<open>
  \<^verbatim>\<open>Math.random()\<close> returns a fraction in \<open>[0, 1)\<close>. The draw is represented by the
  base-36 digits that \<^verbatim>\<open>toString(36)\<close> prints after the point: the printed string is
  \<^verbatim>\<open>"0"\<close> for the draw 0 and \<^verbatim>\<open>"0."\<close> followed by the digits otherwise.
\<close>

type_synonym random_draw = "nat list"

definition random_toString36 :: "random_draw \<Rightarrow> string" where
  "random_toString36 ds = (if ds = [] then ''0'' else ''0.'' @ map digit_char ds)"

section \<open>Stored names (multer storage configuration, lines 75-88)\<close>

text \<open>
  \<^verbatim>\<open>Date.now()\<close> is the number of milliseconds since the epoch, a natural number.
  \<open>uniqueID\<close> is the part of the stored name before the separator, which the source's
  comment calls \<^verbatim>\<open>[uniqueID]\<close>; \<open>storage_filename\<close> is the \<^verbatim>\<open>filename\<close> callback.
\<close>

definition uniqueID :: "nat \<Rightarrow> random_draw \<Rightarrow> string" where
  "uniqueID now rnd = toString_radix 36 now @ substring (random_toString36 rnd) 2 5"

definition storage_filename :: "nat \<Rightarrow> random_draw \<Rightarrow> string \<Rightarrow> string" where
  "storage_filename now rnd originalname = uniqueID now rnd @ ''-'' @ originalname"

text \<open>
  The download routes recover the original name with
  \<^verbatim>\<open>serverFilename.split("-").slice(1).join("-")\<close> (lines 192, 225 and 249).
\<close>

definition originalName_of :: "string \<Rightarrow> string" where
  "originalName_of serverFilename =
     join_str ''-'' (slice_from 1 (split_str CHR ''-'' serverFilename))"

section \<open>Server state\<close>

text \<open>
  The state the routes and the cleanup timer share: the in-memory \<^verbatim>\<open>fileGroupMap\<close>
  (an object used as a dictionary from group id to stored names; the keys of the model
  are the object's own properties), the document persisted at \<^verbatim>\<open>DATA_FILE\<close>, the
  contents of the uploads folder (stored name and last-modified time in milliseconds),
  and what was written to the console. Console messages are kept without the emoji the
  source prints in front of them. A \<open>Document\<close> is a persisted document of the shape
  \<^verbatim>\<open>saveFileGroupMap\<close> writes, an object from group ids to lists of stored names; a file
  that does not parse is \<open>Unparsable\<close>, and files holding other JSON values are not
  modelled.
\<close>

datatype log_line = ConsoleLog string | ConsoleWarn string | ConsoleError string

datatype data_file = NoFile | Unparsable | Document "string \<rightharpoonup> string list"

record server =
  BASE_URL :: string
  fileGroupMap :: "string \<rightharpoonup> string list"
  data_file :: data_file
  uploads :: "(string \<times> nat) list"
  console :: "log_line list"

datatype json = JString string | JNumber nat | JArray "json list"
  | JObject "(string \<times> json) list"

text \<open>
  A response body is JSON (\<^verbatim>\<open>res.json\<close>), plain text (\<^verbatim>\<open>res.send\<close> of a string), a
  file sent for download under a suggested name (\<^verbatim>\<open>res.download\<close>), a ZIP archive
  streamed under an attachment name, with its entries as pairs of the path read and
  the name of the entry, or the page with which Express answers an exception thrown
  by a handler (status 500).
\<close>

datatype body = JsonBody json | TextBody string | FileBody string string
  | ArchiveBody string "(string \<times> string) list" | ErrorPage

record response =
  statusCode :: nat
  body :: body

text \<open>
  Paths. \<^verbatim>\<open>__dirname\<close> is kept symbolic; \<^verbatim>\<open>path.join\<close> is modelled for a directory and
  a name without separators or dot segments.
\<close>

definition path_join :: "string \<Rightarrow> string \<Rightarrow> string" where
  "path_join dir name = dir @ ''/'' @ name"

definition DATA_FILE :: string where
  "DATA_FILE = path_join ''__dirname'' ''fileGroups.json''"

definition uploadFolder :: string where
  "uploadFolder = path_join ''__dirname'' ''uploads''"

definition existsSync :: "server \<Rightarrow> string \<Rightarrow> bool" where
  "existsSync s filePath =
     (filePath \<in> set (map (\<lambda>(name, mtimeMs). path_join uploadFolder name) (uploads s)))"

text \<open>
  \<^verbatim>\<open>loadFileGroupMap\<close> (lines 36-48) and \<^verbatim>\<open>saveFileGroupMap\<close> (lines 54-61). The
  outcome of \<^verbatim>\<open>fs.writeFileSync\<close> is an input: the call succeeds, or it throws and
  leaves some file behind (the old document when the file could not be opened, an empty
  or partial file when it was opened and truncated before the failure). When it throws,
  the \<^verbatim>\<open>catch\<close> block logs and the function returns normally.
\<close>

datatype write_result = WriteOk | WriteFailed data_file

definition loadFileGroupMap :: "data_file \<Rightarrow> (string \<rightharpoonup> string list)" where
  "loadFileGroupMap df = (case df of Document m \<Rightarrow> m | NoFile \<Rightarrow> Map.empty | Unparsable \<Rightarrow> Map.empty)"

definition saveFileGroupMap :: "write_result \<Rightarrow> (string \<rightharpoonup> string list) \<Rightarrow> server \<Rightarrow> server" where
  "saveFileGroupMap outcome m s =
     (case outcome of
        WriteOk \<Rightarrow> s\<lparr>data_file := Document m\<rparr>
      | WriteFailed left \<Rightarrow>
          s\<lparr>data_file := left,
            console := console s @ [ConsoleError ''Error saving file group map:'']\<rparr>)"

definition default_BASE_URL :: string where
  "default_BASE_URL = ''https://swiftshare-backend-jxag.onrender.com''"

text \<open>
  The state after the module has been loaded (lines 12-64): \<open>env_BASE_URL\<close> is
  \<^verbatim>\<open>process.env.BASE_URL\<close>, \<open>df\<close> the persisted document found on disk and \<open>blobs\<close> the
  contents of the uploads folder.
\<close>

definition start :: "string option \<Rightarrow> data_file \<Rightarrow> (string \<times> nat) list \<Rightarrow> server" where
  "start env_BASE_URL df blobs =
     \<lparr>BASE_URL = (case env_BASE_URL of None \<Rightarrow> default_BASE_URL
                   | Some url \<Rightarrow> if url = [] then default_BASE_URL else url),
      fileGroupMap = loadFileGroupMap df,
      data_file = df,
      uploads = blobs,
      console = (case df of Unparsable \<Rightarrow> [ConsoleError ''Error loading file group map:'']
                 | NoFile \<Rightarrow> [] | Document m \<Rightarrow> [])\<rparr>"

section \<open>Upload route (lines 102-183)\<close>

definition MAX_FILE_SIZE :: nat where
  "MAX_FILE_SIZE = 50 * 1024 * 1024"

definition MAX_FILE_COUNT :: nat where
  "MAX_FILE_COUNT = 4"

text \<open>
  An entry of \<^verbatim>\<open>req.files\<close>, with the two fields the route reads. A part of the
  multipart request is its original name together with the clock reading and the
  random draw of the \<^verbatim>\<open>filename\<close> callback that multer runs for it: the callback runs
  once per file, so every file of a batch has a reading and a draw of its own.
  \<open>diskStorage\<close> is what multer leaves in \<^verbatim>\<open>req.files\<close> when it has stored every part,
  and \<open>store_blobs\<close> what it leaves in the uploads folder (a file written at the same
  path replaces the older one).
\<close>

record upload_file =
  originalname :: string
  filename :: string

type_synonym file_part = "string \<times> nat \<times> random_draw"

definition diskStorage :: "file_part list \<Rightarrow> upload_file list" where
  "diskStorage parts =
     map (\<lambda>(name, now, rnd).
            \<lparr>originalname = name, filename = storage_filename now rnd name\<rparr>) parts"

fun store_blobs :: "file_part list \<Rightarrow> (string \<times> nat) list \<Rightarrow> (string \<times> nat) list" where
  "store_blobs [] blobs = blobs"
| "store_blobs ((name, now, rnd) # parts) blobs =
     store_blobs parts
       (filter (\<lambda>(stored, mtimeMs). stored \<noteq> storage_filename now rnd name) blobs
        @ [(storage_filename now rnd name, now)])"

text \<open>
  The first middleware (lines 104-141): the error multer reports, if any, becomes the
  response; otherwise the main handler runs.
\<close>

datatype upload_error = MulterError string | OtherError

definition upload_error_response :: "upload_error \<Rightarrow> response" where
  "upload_error_response err =
     (case err of
        MulterError code \<Rightarrow>
          (let message =
                 (if code = ''LIMIT_FILE_SIZE''
                  then ''File too large. Maximum size is ''
                       @ toString_radix 10 (MAX_FILE_SIZE div (1024 * 1024)) @ ''MB.''
                  else if code = ''LIMIT_UNEXPECTED_FILE'' \<or> code = ''LIMIT_FILE_COUNT''
                  then ''Too many files selected. Maximum is ''
                       @ toString_radix 10 MAX_FILE_COUNT @ ''.''
                  else ''A file upload error occurred.'')
           in \<lparr>statusCode = 400,
               body = JsonBody (JObject [(''error'', JString message), (''code'', JString code)])\<rparr>)
      | OtherError \<Rightarrow>
          \<lparr>statusCode = 500,
           body = JsonBody (JObject
                    [(''error'', JString ''An unknown server error occurred during upload.'')])\<rparr>)"

text \<open>
  The main handler (lines 142-182). \<open>groupID_of\<close> is
  \<^verbatim>\<open>uploadedFilenames[0].split("-")[0]\<close>; it is only evaluated on a list of at least two
  names, and a split is never empty. \<open>toDataURL\<close> is the QR collaborator, which renders
  a link as a data URI.
\<close>

definition groupID_of :: "string list \<Rightarrow> string" where
  "groupID_of uploadedFilenames =
     (case uploadedFilenames of
        [] \<Rightarrow> []
      | first # others \<Rightarrow>
          (case split_str CHR ''-'' first of [] \<Rightarrow> [] | seg # segs \<Rightarrow> seg))"

definition no_files_response :: response where
  "no_files_response =
     \<lparr>statusCode = 400, body = JsonBody (JObject [(''error'', JString ''No files uploaded'')])\<rparr>"

definition upload_success :: "nat \<Rightarrow> string \<Rightarrow> string \<Rightarrow> upload_file list \<Rightarrow> response" where
  "upload_success fileCount downloadLink qrCode files =
     \<lparr>statusCode = 200,
      body = JsonBody (JObject
        [(''message'', JString ''File(s) processed successfully''),
         (''file_count'', JNumber fileCount),
         (''download_link'', JString downloadLink),
         (''qr_code'', JString qrCode),
         (''uploaded_files'', JArray (map (\<lambda>f. JString (originalname f)) files))])\<rparr>"

definition upload_handler ::
  "(string \<Rightarrow> string) \<Rightarrow> write_result \<Rightarrow> upload_file list option \<Rightarrow> server
     \<Rightarrow> response \<times> server" where
  "upload_handler toDataURL outcome req_files s =
     (case req_files of
        None \<Rightarrow> (no_files_response, s)
      | Some files \<Rightarrow>
          if length files = 0 then (no_files_response, s)
          else
            (let fileCount = length files in
             if fileCount > 1 then
               (let uploadedFilenames = map filename files;
                    groupID = groupID_of uploadedFilenames;
                    s1 = s\<lparr>fileGroupMap := (fileGroupMap s)(groupID \<mapsto> uploadedFilenames)\<rparr>;
                    s2 = saveFileGroupMap outcome (fileGroupMap s1) s1;
                    downloadLink = BASE_URL s @ ''/download-group/'' @ groupID;
                    s3 = s2\<lparr>console := console s2 @
                           [ConsoleLog (''[UPLOAD] New Group ('' @ groupID @ '') of ''
                              @ toString_radix 10 fileCount @ '' files uploaded.'')]\<rparr>
                in (upload_success fileCount downloadLink (toDataURL downloadLink) files, s3))
             else
               (let singleFilename = filename (files ! 0);
                    downloadLink = BASE_URL s @ ''/download-file/'' @ singleFilename
                in (upload_success fileCount downloadLink (toDataURL downloadLink) files, s))))"

text \<open>
  The whole route on a request. A request with more than \<open>MAX_FILE_COUNT\<close> files is
  rejected by multer with \<^verbatim>\<open>LIMIT_FILE_COUNT\<close>, and the files it had stored are removed
  again. \<open>Parts\<close> are files within the size limit: a request with a larger file, or one
  that fails in another way, is a \<open>Rejected\<close> request with the error multer reports
  for it. Otherwise multer stores every part and hands the stored files to the handler.
\<close>

datatype upload_request = Rejected upload_error | NotMultipart | Parts "file_part list"

definition upload_route ::
  "(string \<Rightarrow> string) \<Rightarrow> write_result \<Rightarrow> upload_request \<Rightarrow> server \<Rightarrow> response \<times> server" where
  "upload_route toDataURL outcome req s =
     (case req of
        Rejected (MulterError code) \<Rightarrow>
          (upload_error_response (MulterError code),
           s\<lparr>console := console s @ [ConsoleError (''Multer Error: '' @ code)]\<rparr>)
      | Rejected OtherError \<Rightarrow>
          (upload_error_response OtherError,
           s\<lparr>console := console s @ [ConsoleError ''General Upload Error:'']\<rparr>)
      | NotMultipart \<Rightarrow> upload_handler toDataURL outcome None s
      | Parts parts \<Rightarrow>
          if length parts > MAX_FILE_COUNT then
            (upload_error_response (MulterError ''LIMIT_FILE_COUNT''),
             s\<lparr>console := console s @ [ConsoleError ''Multer Error: LIMIT_FILE_COUNT'']\<rparr>)
          else
            upload_handler toDataURL outcome (Some (diskStorage parts))
              (s\<lparr>uploads := store_blobs parts (uploads s)\<rparr>))"

section \<open>Download routes (lines 188-259)\<close>

definition download_file :: "string \<Rightarrow> server \<Rightarrow> response \<times> server" where
  "download_file fname s =
     (let filePath = path_join uploadFolder fname in
      if existsSync s filePath
      then (\<lparr>statusCode = 200, body = FileBody filePath (originalName_of fname)\<rparr>, s)
      else (\<lparr>statusCode = 404, body = JsonBody (JObject [(''error'', JString ''File not found'')])\<rparr>, s))"

text \<open>
  \<^verbatim>\<open>fileGroupMap[groupId]\<close> reads a plain object: when the object has no own property
  of that name, the read finds the properties every object inherits from
  \<^verbatim>\<open>Object.prototype\<close>, which are functions (listed with their \<^verbatim>\<open>length\<close>) and, under
  \<^verbatim>\<open>__proto__\<close>, the prototype object itself.
\<close>

datatype inherited = InheritedFunction nat | InheritedObject

definition Object_prototype :: "(string \<times> inherited) list" where
  "Object_prototype =
     [(''constructor'', InheritedFunction 1),
      (''__defineGetter__'', InheritedFunction 2),
      (''__defineSetter__'', InheritedFunction 2),
      (''hasOwnProperty'', InheritedFunction 1),
      (''__lookupGetter__'', InheritedFunction 1),
      (''__lookupSetter__'', InheritedFunction 1),
      (''isPrototypeOf'', InheritedFunction 1),
      (''propertyIsEnumerable'', InheritedFunction 1),
      (''toString'', InheritedFunction 0),
      (''valueOf'', InheritedFunction 0),
      (''toLocaleString'', InheritedFunction 0),
      (''__proto__'', InheritedObject)]"

datatype property = Undefined | Files "string list" | Inherited inherited

definition read_group :: "server \<Rightarrow> string \<Rightarrow> property" where
  "read_group s groupId =
     (case fileGroupMap s groupId of
        Some files \<Rightarrow> Files files
      | None \<Rightarrow>
          (case map_of Object_prototype groupId of
             Some v \<Rightarrow> Inherited v
           | None \<Rightarrow> Undefined))"

text \<open>
  An inherited function of length 0 meets the test \<^verbatim>\<open>length === 0\<close> and is answered as
  not found; any other inherited value passes the guard, and the call of \<^verbatim>\<open>forEach\<close> or
  \<^verbatim>\<open>map\<close> on it throws a \<^verbatim>\<open>TypeError\<close>, which Express logs and answers with status
  500.
\<close>

definition express_error :: "string \<Rightarrow> server \<Rightarrow> response \<times> server" where
  "express_error message s =
     (\<lparr>statusCode = 500, body = ErrorPage\<rparr>,
      s\<lparr>console := console s @ [ConsoleError (''TypeError: '' @ message)]\<rparr>)"

text \<open>
  The \<^verbatim>\<open>forEach\<close> of the group download (lines 223-232), threading the archive built
  so far and the warnings logged so far. \<open>entry_name\<close> is the name archiver gives the
  entry added by \<^verbatim>\<open>archive.file(filePath, { name: originalName })\<close>: the name passed, or
  the file path when that name is empty. Archiver's further normalisation of a name
  (path separators, a leading slash or drive prefix) is not modelled, and neither is
  what it reports later, while it streams.
\<close>

definition entry_name :: "string \<Rightarrow> string \<Rightarrow> string" where
  "entry_name filePath name = (if name = [] then filePath else name)"

fun zip_files ::
  "server \<Rightarrow> string list \<Rightarrow> (string \<times> string) list \<times> log_line list
     \<Rightarrow> (string \<times> string) list \<times> log_line list" where
  "zip_files s [] acc = acc"
| "zip_files s (serverFilename # rest) (archive, warnings) =
     (let filePath = path_join uploadFolder serverFilename;
          originalName = originalName_of serverFilename
      in if existsSync s filePath
         then zip_files s rest
                (archive @ [(filePath, entry_name filePath originalName)], warnings)
         else zip_files s rest
                (archive, warnings @ [ConsoleWarn (''File not found on server: '' @ filePath)]))"

definition group_not_found_text :: response where
  "group_not_found_text = \<lparr>statusCode = 404, body = TextBody ''File group not found or empty.''\<rparr>"

definition download_group :: "string \<Rightarrow> server \<Rightarrow> response \<times> server" where
  "download_group groupId s =
     (case read_group s groupId of
        Undefined \<Rightarrow> (group_not_found_text, s)
      | Inherited (InheritedFunction n) \<Rightarrow>
          if n = 0 then (group_not_found_text, s)
          else express_error ''filesToZip.forEach is not a function'' s
      | Inherited InheritedObject \<Rightarrow>
          express_error ''filesToZip.forEach is not a function'' s
      | Files filesToZip \<Rightarrow>
          if length filesToZip = 0 then (group_not_found_text, s)
          else
            (case zip_files s filesToZip ([], []) of
               (archive, warnings) \<Rightarrow>
                 (\<lparr>statusCode = 200,
                   body = ArchiveBody (''SwiftShare_Files_'' @ groupId @ ''.zip'') archive\<rparr>,
                  s\<lparr>console := console s @ warnings\<rparr>)))"

definition group_not_found_json :: response where
  "group_not_found_json =
     \<lparr>statusCode = 404, body = JsonBody (JObject [(''error'', JString ''File group not found'')])\<rparr>"

definition group_info :: "string \<Rightarrow> server \<Rightarrow> response \<times> server" where
  "group_info groupId s =
     (case read_group s groupId of
        Undefined \<Rightarrow> (group_not_found_json, s)
      | Inherited (InheritedFunction n) \<Rightarrow>
          if n = 0 then (group_not_found_json, s)
          else express_error ''filesInGroup.map is not a function'' s
      | Inherited InheritedObject \<Rightarrow>
          express_error ''filesInGroup.map is not a function'' s
      | Files filesInGroup \<Rightarrow>
          if length filesInGroup = 0 then (group_not_found_json, s)
          else
            (let fileInfo = map (\<lambda>serverFilename.
                   JObject [(''name'', JString (originalName_of serverFilename))]) filesInGroup
             in (\<lparr>statusCode = 200,
                  body = JsonBody (JObject
                    [(''type'', JString ''group''),
                     (''groupId'', JString groupId),
                     (''files'', JArray fileInfo),
                     (''download_link'', JString (BASE_URL s @ ''/download-group/'' @ groupId))])\<rparr>,
                 s)))"

section \<open>Automatic cleanup (lines 265-291)\<close>

text \<open>
  The identifiers of server.js that are bound to a path are \<^verbatim>\<open>DATA_FILE\<close> (line 14) and
  \<^verbatim>\<open>uploadFolder\<close> (line 31). \<^verbatim>\<open>cleanupOldFiles\<close> reads \<^verbatim>\<open>uploadDir\<close> (lines 272 and
  276), which neither the file nor Node.js declares: evaluating an undeclared
  identifier throws a \<^verbatim>\<open>ReferenceError\<close>.
\<close>

datatype js_error = ReferenceError string

definition path_bindings :: "(string \<times> string) list" where
  "path_bindings = [(''DATA_FILE'', DATA_FILE), (''uploadFolder'', uploadFolder)]"

definition evaluate_identifier :: "string \<Rightarrow> js_error + string" where
  "evaluate_identifier ident =
     (case map_of path_bindings ident of
        Some v \<Rightarrow> Inr v
      | None \<Rightarrow> Inl (ReferenceError ident))"

definition FILE_EXPIRY_HOURS :: rat where
  "FILE_EXPIRY_HOURS = 24"

definition CLEANUP_INTERVAL_MINUTES :: nat where
  "CLEANUP_INTERVAL_MINUTES = 60"

text \<open>
  The file-system calls of the sweep. Which of them fail is an input: \<open>readdir_fails\<close>,
  and \<open>stat_fails\<close> and \<open>unlink_fails\<close> per path. Reading a directory other than the
  uploads folder, or a path that is not in it, fails as well.
\<close>

record fs_faults =
  readdir_fails :: bool
  stat_fails :: "string \<Rightarrow> bool"
  unlink_fails :: "string \<Rightarrow> bool"

definition readdir :: "fs_faults \<Rightarrow> server \<Rightarrow> string \<Rightarrow> string list option" where
  "readdir flt s dir =
     (if readdir_fails flt then None
      else if dir = uploadFolder then Some (map fst (uploads s))
      else None)"

definition stat_mtimeMs :: "fs_faults \<Rightarrow> server \<Rightarrow> string \<Rightarrow> nat option" where
  "stat_mtimeMs flt s filePath =
     (if stat_fails flt filePath then None
      else map_of (map (\<lambda>(name, mtimeMs). (path_join uploadFolder name, mtimeMs)) (uploads s))
             filePath)"

definition unlink :: "server \<Rightarrow> string \<Rightarrow> server" where
  "unlink s filePath =
     s\<lparr>uploads := filter (\<lambda>(name, mtimeMs). path_join uploadFolder name \<noteq> filePath) (uploads s)\<rparr>"

text \<open>
  The body of the \<^verbatim>\<open>readdir\<close> callback (lines 275-286), for the directory \<open>dir\<close> that
  \<^verbatim>\<open>uploadDir\<close> evaluates to. A failed \<^verbatim>\<open>stat\<close> returns without logging; a failed
  \<^verbatim>\<open>unlink\<close> logs nothing either. \<open>ageHours\<close> is the age computed at line 279, as an
  exact fraction.
\<close>

definition ageHours :: "nat \<Rightarrow> nat \<Rightarrow> rat" where
  "ageHours now mtimeMs = of_int (int now - int mtimeMs) / (1000 * 60 * 60)"

fun sweep_files :: "fs_faults \<Rightarrow> nat \<Rightarrow> string \<Rightarrow> string list \<Rightarrow> server \<Rightarrow> server" where
  "sweep_files flt now dir [] s = s"
| "sweep_files flt now dir (file # rest) s =
     (let filePath = path_join dir file in
      case stat_mtimeMs flt s filePath of
        None \<Rightarrow> sweep_files flt now dir rest s
      | Some mtimeMs \<Rightarrow>
          if ageHours now mtimeMs > FILE_EXPIRY_HOURS then
            (if unlink_fails flt filePath then sweep_files flt now dir rest s
             else sweep_files flt now dir rest
                    ((unlink s filePath)\<lparr>console := console s @
                       [ConsoleLog (''Deleted expired file: '' @ file)]\<rparr>))
          else sweep_files flt now dir rest s)"

text \<open>
  The call \<^verbatim>\<open>fs.readdir(dir, callback)\<close> with its callback (lines 272-287): a failure to
  list the directory is logged and ends the run.
\<close>

definition sweep_directory :: "fs_faults \<Rightarrow> nat \<Rightarrow> string \<Rightarrow> server \<Rightarrow> server" where
  "sweep_directory flt now dir s =
     (case readdir flt s dir of
        None \<Rightarrow> s\<lparr>console := console s @ [ConsoleError ''Cleanup error:'']\<rparr>
      | Some files \<Rightarrow> sweep_files flt now dir files s)"

text \<open>
  \<^verbatim>\<open>cleanupOldFiles\<close> (lines 268-288) returns the exception it throws, if any, and the
  state it leaves. The argument \<^verbatim>\<open>uploadDir\<close> is evaluated before \<^verbatim>\<open>fs.readdir\<close> is
  called.
\<close>

definition cleanupOldFiles :: "fs_faults \<Rightarrow> nat \<Rightarrow> server \<Rightarrow> js_error option \<times> server" where
  "cleanupOldFiles flt now s =
     (let s0 = s\<lparr>console := console s @ [ConsoleLog ''Running cleanup check...'']\<rparr> in
      case evaluate_identifier ''uploadDir'' of
        Inl e \<Rightarrow> (Some e, s0)
      | Inr uploadDir \<Rightarrow> (None, sweep_directory flt now uploadDir s0))"

text \<open>
  The periodic schedule (line 291): every tick of the interval timer calls
  \<^verbatim>\<open>cleanupOldFiles\<close>. The file installs no handler for uncaught exceptions, so an
  exception that leaves the timer callback ends the Node.js process.
\<close>

datatype process = Running server | Crashed js_error

definition timer_tick :: "fs_faults \<Rightarrow> nat \<Rightarrow> process \<Rightarrow> process" where
  "timer_tick flt now p =
     (case p of
        Crashed e \<Rightarrow> Crashed e
      | Running s \<Rightarrow>
          (case cleanupOldFiles flt now s of
             (Some e, s') \<Rightarrow> Crashed e
           | (None, s') \<Rightarrow> Running s'))"

section \<open>Runs of the server\<close>

text \<open>
  The four routes as one step of the server on a request, and the state after a
  sequence of requests. An upload request comes with the outcome of its write to
  \<^verbatim>\<open>DATA_FILE\<close>. \<open>entry_ok\<close> says that a group id has an entry of at least two stored
  names, and \<open>entries_ok\<close> that every entry of the group map has at least two.
\<close>

datatype request = Upload write_result upload_request | DownloadFile string
  | DownloadGroup string | GroupInfo string

definition serve :: "(string \<Rightarrow> string) \<Rightarrow> request \<Rightarrow> server \<Rightarrow> response \<times> server" where
  "serve toDataURL r s =
     (case r of
        Upload outcome req \<Rightarrow> upload_route toDataURL outcome req s
      | DownloadFile fname \<Rightarrow> download_file fname s
      | DownloadGroup groupId \<Rightarrow> download_group groupId s
      | GroupInfo groupId \<Rightarrow> group_info groupId s)"

fun run :: "(string \<Rightarrow> string) \<Rightarrow> request list \<Rightarrow> server \<Rightarrow> server" where
  "run toDataURL [] s = s"
| "run toDataURL (r # later) s = run toDataURL later (snd (serve toDataURL r s))"

definition entry_ok :: "server \<Rightarrow> string \<Rightarrow> bool" where
  "entry_ok s g = (case fileGroupMap s g of None \<Rightarrow> False | Some fs \<Rightarrow> 2 \<le> length fs)"

definition entries_ok :: "server \<Rightarrow> bool" where
  "entries_ok s = (\<forall>g fs. fileGroupMap s g = Some fs \<longrightarrow> 2 \<le> length fs)"

text \<open>A file system on which no call of the sweep fails.\<close>

definition no_faults :: fs_faults where
  "no_faults = \<lparr>readdir_fails = False, stat_fails = (\<lambda>filePath. False),
                 unlink_fails = (\<lambda>filePath. False)\<rparr>"

section \<open>Facts about the string operations\<close>

lemma split_str_not_Nil: "split_str sep s \<noteq> []"
  by (induction s) (auto split: list.splits)

lemma split_str_no_sep:
  "sep \<notin> set p \<Longrightarrow> split_str sep (p @ sep # rest) = p # split_str sep rest"
  by (induction p) auto

lemma join_split_str: "join_str [sep] (split_str sep s) = s"
proof (induction s)
  case Nil
  show ?case by simp
next
  case (Cons c cs)
  obtain seg segs where sp: "split_str sep cs = seg # segs"
    using split_str_not_Nil [of sep cs] by (cases "split_str sep cs") auto
  show ?case
  proof (cases "c = sep")
    case True
    with Cons sp show ?thesis by simp
  next
    case False
    with Cons sp show ?thesis by (cases segs) auto
  qed
qed

lemma digit_char_in_digits: "digit_char d \<in> set digit_chars"
proof -
  have "d mod 36 < length digit_chars" by (simp add: digit_chars_def)
  then show ?thesis unfolding digit_char_def by (rule nth_mem)
qed

lemma digit_char_not_hyphen: "digit_char d \<noteq> CHR ''-''"
proof
  assume "digit_char d = CHR ''-''"
  with digit_char_in_digits [of d] have "CHR ''-'' \<in> set digit_chars" by simp
  then show False by (simp add: digit_chars_def)
qed

lemma hyphen_not_digit_char: "CHR ''-'' \<noteq> digit_char d"
  using digit_char_not_hyphen [of d] by (rule not_sym)

lemma toString_radix_no_hyphen: "CHR ''-'' \<notin> set (toString_radix radix n)"
proof (induction radix n rule: toString_radix.induct)
  case (1 radix n)
  show ?case
  proof (cases "n < radix \<or> radix < 2")
    case True
    then show ?thesis
      by (subst toString_radix.simps) (simp add: hyphen_not_digit_char)
  next
    case False
    with "1" show ?thesis
      by (subst toString_radix.simps) (simp add: hyphen_not_digit_char)
  qed
qed

lemma salt_no_hyphen: "CHR ''-'' \<notin> set (substring (random_toString36 rnd) 2 5)"
proof (cases "rnd = []")
  case True
  then show ?thesis by (simp add: substring_def random_toString36_def)
next
  case False
  have "set (take 3 (map digit_char rnd)) \<subseteq> set (map digit_char rnd)"
    by (rule set_take_subset)
  moreover have "CHR ''-'' \<notin> set (map digit_char rnd)"
  proof
    assume "CHR ''-'' \<in> set (map digit_char rnd)"
    then obtain d where "digit_char d = CHR ''-''" by auto
    with digit_char_not_hyphen show False by blast
  qed
  ultimately show ?thesis using False
    by (auto simp: substring_def random_toString36_def)
qed

lemma uniqueID_no_hyphen: "CHR ''-'' \<notin> set (uniqueID now rnd)"
  using toString_radix_no_hyphen salt_no_hyphen by (simp add: uniqueID_def)

lemma split_storage_filename:
  "split_str CHR ''-'' (storage_filename now rnd F) = uniqueID now rnd # split_str CHR ''-'' F"
  using split_str_no_sep [OF uniqueID_no_hyphen] by (simp add: storage_filename_def)

lemma groupID_of_diskStorage:
  "groupID_of (map filename (diskStorage ((name, now, rnd) # rest))) = uniqueID now rnd"
  by (simp add: groupID_of_def diskStorage_def split_storage_filename)

lemma filename_diskStorage:
  "map filename (diskStorage parts)
     = map (\<lambda>(name, now, rnd). storage_filename now rnd name) parts"
  by (induction parts) (auto simp: diskStorage_def)

text \<open>The clock reading used in the examples, 1700000000000 ms, in base 36.\<close>

lemma toString36_example: "toString_radix 36 1700000000000 = ''loyw3v28''"
  by (simp add: toString_radix.simps digit_char_def digit_chars_def)

lemma diskStorage_example:
  "map filename (diskStorage [(''a.txt'', 1700000000000, [7, 2, 3]),
                              (''b.txt'', 1700000000000, [4, 5, 6])])
     = [''loyw3v28723-a.txt'', ''loyw3v28456-b.txt'']"
  by (simp add: diskStorage_def storage_filename_def uniqueID_def substring_def
        random_toString36_def toString36_example digit_char_def digit_chars_def)

lemma uniqueID_example: "uniqueID 1700000000000 [7, 2, 3] = ''loyw3v28723''"
  by (simp add: uniqueID_def substring_def random_toString36_def toString36_example
        digit_char_def digit_chars_def)

section \<open>Facts about the routes\<close>

lemma originalname_diskStorage:
  "map (\<lambda>f. JString (originalname f)) (diskStorage parts)
     = map (\<lambda>(name, now, rnd). JString name) parts"
  by (induction parts) (auto simp: diskStorage_def)

lemma upload_route_single:
  "upload_route q w (Parts [(name, now, rnd)]) s =
     (let link = BASE_URL s @ ''/download-file/'' @ storage_filename now rnd name in
      (upload_success 1 link (q link) (diskStorage [(name, now, rnd)]),
       s\<lparr>uploads := store_blobs [(name, now, rnd)] (uploads s)\<rparr>))"
  by (simp add: upload_route_def upload_handler_def diskStorage_def Let_def MAX_FILE_COUNT_def)

lemma upload_route_group:
  assumes "rest \<noteq> []" and "length rest < MAX_FILE_COUNT"
  shows "upload_route q w (Parts ((name, now, rnd) # rest)) s =
     (let parts = (name, now, rnd) # rest;
          names = map filename (diskStorage parts);
          link = BASE_URL s @ ''/download-group/'' @ uniqueID now rnd;
          s1 = s\<lparr>uploads := store_blobs parts (uploads s),
                 fileGroupMap := (fileGroupMap s)(uniqueID now rnd \<mapsto> names)\<rparr>;
          s2 = saveFileGroupMap w (fileGroupMap s1) s1
      in (upload_success (length parts) link (q link) (diskStorage parts),
          s2\<lparr>console := console s2 @
               [ConsoleLog (''[UPLOAD] New Group ('' @ uniqueID now rnd @ '') of ''
                  @ toString_radix 10 (length parts) @ '' files uploaded.'')]\<rparr>))"
proof -
  have g: "groupID_of (map filename (diskStorage ((name, now, rnd) # rest))) = uniqueID now rnd"
    by (rule groupID_of_diskStorage)
  have len: "length (diskStorage ((name, now, rnd) # rest)) = Suc (length rest)"
    by (simp add: diskStorage_def)
  from assms have "0 < length rest" and "\<not> MAX_FILE_COUNT < Suc (length rest)" by auto
  then show ?thesis
    by (simp add: upload_route_def upload_handler_def Let_def g len)
qed

lemma upload_route_too_many:
  assumes "MAX_FILE_COUNT < length parts"
  shows "upload_route q w (Parts parts) s =
     (upload_error_response (MulterError ''LIMIT_FILE_COUNT''),
      s\<lparr>console := console s @ [ConsoleError ''Multer Error: LIMIT_FILE_COUNT'']\<rparr>)"
  using assms by (simp add: upload_route_def)

lemma fileGroupMap_saveFileGroupMap [simp]:
  "fileGroupMap (saveFileGroupMap w m s) = fileGroupMap s"
  by (simp add: saveFileGroupMap_def split: write_result.splits)

lemma upload_route_fileGroupMap:
  "fileGroupMap (snd (upload_route q w req s)) =
     (case req of
        Parts ((name, now, rnd) # nxt # rest) \<Rightarrow>
          if length rest + 2 \<le> MAX_FILE_COUNT
          then (fileGroupMap s)(uniqueID now rnd \<mapsto>
                  map filename (diskStorage ((name, now, rnd) # nxt # rest)))
          else fileGroupMap s
      | _ \<Rightarrow> fileGroupMap s)"
proof (cases req)
  case (Rejected err)
  then show ?thesis by (cases err) (simp_all add: upload_route_def)
next
  case NotMultipart
  then show ?thesis by (simp add: upload_route_def upload_handler_def)
next
  case (Parts parts)
  show ?thesis
  proof (cases parts)
    case Nil
    with Parts show ?thesis
      by (simp add: upload_route_def upload_handler_def diskStorage_def)
  next
    case (Cons p rest)
    obtain name now rnd where p: "p = (name, now, rnd)" by (cases p) auto
    show ?thesis
    proof (cases rest)
      case Nil
      with Parts Cons p show ?thesis by (simp add: upload_route_single Let_def)
    next
      case (Cons nxt rest')
      then have ne: "rest \<noteq> []" by simp
      show ?thesis
      proof (cases "length rest' + 2 \<le> MAX_FILE_COUNT")
        case True
        with Cons have "length rest < MAX_FILE_COUNT" by simp
        from upload_route_group [OF ne this, of q w name now rnd s]
          Parts \<open>parts = p # rest\<close> p Cons True
        show ?thesis by (simp add: Let_def)
      next
        case False
        with Cons \<open>parts = p # rest\<close> have "MAX_FILE_COUNT < length parts" by simp
        from upload_route_too_many [OF this, of q w s] Parts \<open>parts = p # rest\<close> p Cons False
        show ?thesis by simp
      qed
    qed
  qed
qed

lemma upload_route_entry_ok:
  "entry_ok s g \<Longrightarrow> entry_ok (snd (upload_route q w req s)) g"
  unfolding entry_ok_def upload_route_fileGroupMap
  by (auto split: upload_request.splits list.splits prod.splits simp: diskStorage_def)

lemma upload_route_entries_ok:
  "entries_ok s \<Longrightarrow> entries_ok (snd (upload_route q w req s))"
  unfolding entries_ok_def upload_route_fileGroupMap
  by (auto split: upload_request.splits list.splits prod.splits if_splits
        simp: diskStorage_def)

lemma read_group_Some: "fileGroupMap s g = Some files \<Longrightarrow> read_group s g = Files files"
  by (simp add: read_group_def)

lemma read_group_uploads [simp]: "read_group (s\<lparr>uploads := present\<rparr>) g = read_group s g"
  by (simp add: read_group_def)

lemma path_join_inject [simp]: "path_join dir a = path_join dir b \<longleftrightarrow> a = b"
  by (simp add: path_join_def)

lemma existsSync_name:
  "existsSync s (path_join uploadFolder f) \<longleftrightarrow> f \<in> fst ` set (uploads s)"
  by (force simp: existsSync_def image_iff split: prod.splits)

lemma zip_files_append:
  "zip_files s files (archive, warnings) =
     (archive @ map (\<lambda>f. (path_join uploadFolder f,
                          entry_name (path_join uploadFolder f) (originalName_of f)))
                  (filter (\<lambda>f. f \<in> fst ` set (uploads s)) files),
      warnings @ map (\<lambda>f. ConsoleWarn (''File not found on server: '' @ path_join uploadFolder f))
                  (filter (\<lambda>f. f \<notin> fst ` set (uploads s)) files))"
  by (induction files arbitrary: archive warnings) (simp_all add: Let_def existsSync_name)

lemma download_group_nonempty:
  assumes "fileGroupMap s g = Some files" and "files \<noteq> []"
  shows "download_group g s =
     (\<lparr>statusCode = 200,
       body = ArchiveBody (''SwiftShare_Files_'' @ g @ ''.zip'')
                (map (\<lambda>f. (path_join uploadFolder f,
                           entry_name (path_join uploadFolder f) (originalName_of f)))
                   (filter (\<lambda>f. f \<in> fst ` set (uploads s)) files))\<rparr>,
      s\<lparr>console := console s @
           map (\<lambda>f. ConsoleWarn (''File not found on server: '' @ path_join uploadFolder f))
             (filter (\<lambda>f. f \<notin> fst ` set (uploads s)) files)\<rparr>)"
  using assms by (simp add: download_group_def read_group_Some zip_files_append)

lemma entry_ok_routes:
  assumes "entry_ok s g"
  shows "statusCode (fst (download_group g s)) = 200 \<and> statusCode (fst (group_info g s)) = 200"
proof -
  from assms obtain fs where fs: "fileGroupMap s g = Some fs" "2 \<le> length fs"
    by (auto simp: entry_ok_def split: option.splits)
  then have ne: "fs \<noteq> []" by auto
  have "statusCode (fst (download_group g s)) = 200"
    by (simp add: download_group_nonempty [OF fs(1) ne])
  moreover have "statusCode (fst (group_info g s)) = 200"
    using fs ne by (simp add: group_info_def read_group_Some Let_def)
  ultimately show ?thesis by simp
qed

lemma fileGroupMap_download_group [simp]:
  "fileGroupMap (snd (download_group g s)) = fileGroupMap s"
  by (simp add: download_group_def express_error_def
        split: property.splits inherited.splits prod.splits)

lemma fileGroupMap_group_info [simp]:
  "fileGroupMap (snd (group_info g s)) = fileGroupMap s"
  by (simp add: group_info_def express_error_def Let_def
        split: property.splits inherited.splits)

lemma fileGroupMap_download_file [simp]:
  "fileGroupMap (snd (download_file fname s)) = fileGroupMap s"
  by (simp add: download_file_def Let_def)

lemma serve_entry_ok:
  assumes "entry_ok s g"
  shows "entry_ok (snd (serve q r s)) g"
proof (cases r)
  case (Upload w req)
  with assms show ?thesis by (simp add: serve_def upload_route_entry_ok)
next
  case (DownloadFile fname)
  with assms show ?thesis by (simp add: serve_def entry_ok_def)
next
  case (DownloadGroup groupId)
  with assms show ?thesis by (simp add: serve_def entry_ok_def)
next
  case (GroupInfo groupId)
  with assms show ?thesis by (simp add: serve_def entry_ok_def)
qed

lemma run_entry_ok:
  "entry_ok s g \<Longrightarrow> entry_ok (run q later s) g"
proof (induction later arbitrary: s)
  case Nil
  then show ?case by simp
next
  case (Cons r later)
  then show ?case by (simp add: serve_entry_ok)
qed

lemma serve_entries_ok:
  assumes "entries_ok s"
  shows "entries_ok (snd (serve q r s))"
proof (cases r)
  case (Upload w req)
  with assms show ?thesis by (simp add: serve_def upload_route_entries_ok)
next
  case (DownloadFile fname)
  with assms show ?thesis by (simp add: serve_def entries_ok_def)
next
  case (DownloadGroup groupId)
  with assms show ?thesis by (simp add: serve_def entries_ok_def)
next
  case (GroupInfo groupId)
  with assms show ?thesis by (simp add: serve_def entries_ok_def)
qed

lemma run_entries_ok:
  "entries_ok s \<Longrightarrow> entries_ok (run q rs s)"
proof (induction rs arbitrary: s)
  case Nil
  then show ?case by simp
next
  case (Cons r rs)
  then show ?case by (simp add: serve_entries_ok)
qed

lemma start_entries_ok: "entries_ok (start env NoFile blobs)"
  by (simp add: entries_ok_def start_def loadFileGroupMap_def)

section \<open>Facts about the cleanup\<close>

lemma evaluate_uploadDir: "evaluate_identifier ''uploadDir'' = Inl (ReferenceError ''uploadDir'')"
  by (simp add: evaluate_identifier_def path_bindings_def)

lemma cleanupOldFiles_throws:
  "cleanupOldFiles flt now s =
     (Some (ReferenceError ''uploadDir''),
      s\<lparr>console := console s @ [ConsoleLog ''Running cleanup check...'']\<rparr>)"
  by (simp add: cleanupOldFiles_def evaluate_uploadDir Let_def)

section \<open>Claims\<close>

text \<open>
  C4. For every original filename \<open>F\<close>, every clock reading and every random draw,
  stripping the unique prefix from the stored name generated for \<open>F\<close> gives back exactly
  \<open>F\<close>, also when \<open>F\<close> contains hyphens: the prefix itself never contains one.
\<close>

theorem originalName_roundtrip:
  "originalName_of (storage_filename now rnd F) = F"
proof -
  have "originalName_of (storage_filename now rnd F)
        = join_str ''-'' (split_str CHR ''-'' F)"
    by (simp add: originalName_of_def slice_from_def split_storage_filename)
  also have "\<dots> = F" by (rule join_split_str)
  finally show ?thesis .
qed

text \<open>
  C3, as the code has it. Every file of a batch receives a stored name of the form
  \<open>uniqueID-originalname\<close>, where the \<open>uniqueID\<close> is computed for that file from its own
  clock reading and random draw and never contains a hyphen; the group id derived for
  a batch is the \<open>uniqueID\<close> of the first file's stored name.
\<close>

theorem storedName_prefix_per_file:
  "map filename (diskStorage parts)
     = map (\<lambda>(name, now, rnd). uniqueID now rnd @ ''-'' @ name) parts
   \<and> CHR ''-'' \<notin> set (uniqueID now rnd)
   \<and> groupID_of (map filename (diskStorage ((name, now, rnd) # rest))) = uniqueID now rnd"
proof -
  have "map filename (diskStorage parts)
          = map (\<lambda>(name, now, rnd). uniqueID now rnd @ ''-'' @ name) parts"
    by (simp add: filename_diskStorage storage_filename_def)
  then show ?thesis
    using uniqueID_no_hyphen [of now rnd] groupID_of_diskStorage [of name now rnd rest]
    by blast
qed

text \<open>
  C3 as stated fails: two files uploaded in one request, in the same millisecond, with
  different random draws, have no prefix in common.
\<close>

theorem batch_prefix_not_shared:
  "\<not> (\<exists>prefix.
        map filename (diskStorage [(''a.txt'', 1700000000000, [7, 2, 3]),
                                   (''b.txt'', 1700000000000, [4, 5, 6])])
        = [prefix @ ''-a.txt'', prefix @ ''-b.txt''])"
proof
  assume "\<exists>prefix.
        map filename (diskStorage [(''a.txt'', 1700000000000, [7, 2, 3]),
                                   (''b.txt'', 1700000000000, [4, 5, 6])])
        = [prefix @ ''-a.txt'', prefix @ ''-b.txt'']"
  then obtain prefix where
    "[''loyw3v28723'' @ ''-a.txt'', ''loyw3v28456'' @ ''-b.txt'']
       = [prefix @ ''-a.txt'', prefix @ ''-b.txt'']"
    using diskStorage_example by auto
  then have "prefix = ''loyw3v28723''" and "prefix = ''loyw3v28456''"
    by (simp_all only: list.inject append_same_eq)
  then show False by simp
qed

text \<open>
  C9, as the code has it. Two files receive the same stored name exactly when they have
  the same original name and the same \<open>uniqueID\<close>: files that differ in either never
  collide.
\<close>

theorem storedName_equal_iff:
  "storage_filename now1 rnd1 F1 = storage_filename now2 rnd2 F2
     \<longleftrightarrow> uniqueID now1 rnd1 = uniqueID now2 rnd2 \<and> F1 = F2"
proof
  assume eq: "storage_filename now1 rnd1 F1 = storage_filename now2 rnd2 F2"
  then have "split_str CHR ''-'' (storage_filename now1 rnd1 F1)
             = split_str CHR ''-'' (storage_filename now2 rnd2 F2)" by simp
  then have ids: "uniqueID now1 rnd1 = uniqueID now2 rnd2"
    by (simp add: split_storage_filename)
  with eq have "F1 = F2" by (simp add: storage_filename_def)
  with ids show "uniqueID now1 rnd1 = uniqueID now2 rnd2 \<and> F1 = F2" by simp
next
  assume "uniqueID now1 rnd1 = uniqueID now2 rnd2 \<and> F1 = F2"
  then show "storage_filename now1 rnd1 F1 = storage_filename now2 rnd2 F2"
    by (simp add: storage_filename_def)
qed

text \<open>
  C9 as stated fails: two uploads of a file of the same name in the same millisecond,
  whose random draws differ only after the third base-36 digit, receive the same stored
  name.
\<close>

theorem storedName_collision:
  "(''report.pdf'', 1700000000000 :: nat, [7, 2, 3, 4 :: nat])
     \<noteq> (''report.pdf'', 1700000000000, [7, 2, 3, 9])
   \<and> map filename (diskStorage [(''report.pdf'', 1700000000000, [7, 2, 3, 4])])
     = map filename (diskStorage [(''report.pdf'', 1700000000000, [7, 2, 3, 9])])"
  by (simp add: diskStorage_def storage_filename_def uniqueID_def substring_def
        random_toString36_def)

text \<open>
  C5. When the upload route has stored a batch of exactly one file, the group map and
  the persisted document are unchanged and the response is the success response with the
  link \<open>BASE_URL/download-file/storedName\<close>. When it has stored a batch of two to
  \<open>MAX_FILE_COUNT = 4\<close> files, the group map is the old one with the entry from the first
  file's \<open>uniqueID\<close> to the stored names of the batch in upload order, the persisted
  document is that map (when the write to \<^verbatim>\<open>DATA_FILE\<close> fails, it is what the failed
  write left), and the response is the success response with the link
  \<open>BASE_URL/download-group/uniqueID\<close>.
\<close>

theorem upload_single_vs_group:
  assumes "upload_route toDataURL outcome (Parts ((name, now, rnd) # rest)) s = (res, s')"
  shows "(rest = [] \<longrightarrow>
            fileGroupMap s' = fileGroupMap s \<and> data_file s' = data_file s
            \<and> res = \<lparr>statusCode = 200,
                 body = JsonBody (JObject
                   [(''message'', JString ''File(s) processed successfully''),
                    (''file_count'', JNumber 1),
                    (''download_link'',
                       JString (BASE_URL s @ ''/download-file/'' @ storage_filename now rnd name)),
                    (''qr_code'',
                       JString (toDataURL
                         (BASE_URL s @ ''/download-file/'' @ storage_filename now rnd name))),
                    (''uploaded_files'', JArray [JString name])])\<rparr>)
       \<and> (rest \<noteq> [] \<and> length ((name, now, rnd) # rest) \<le> MAX_FILE_COUNT \<longrightarrow>
            fileGroupMap s' = (fileGroupMap s)(uniqueID now rnd \<mapsto>
                 map (\<lambda>(name, now, rnd). storage_filename now rnd name) ((name, now, rnd) # rest))
            \<and> data_file s' = (case outcome of WriteOk \<Rightarrow> Document (fileGroupMap s')
                               | WriteFailed left \<Rightarrow> left)
            \<and> res = \<lparr>statusCode = 200,
                 body = JsonBody (JObject
                   [(''message'', JString ''File(s) processed successfully''),
                    (''file_count'', JNumber (length ((name, now, rnd) # rest))),
                    (''download_link'',
                       JString (BASE_URL s @ ''/download-group/'' @ uniqueID now rnd)),
                    (''qr_code'',
                       JString (toDataURL (BASE_URL s @ ''/download-group/'' @ uniqueID now rnd))),
                    (''uploaded_files'',
                       JArray (map (\<lambda>(name, now, rnd). JString name)
                                 ((name, now, rnd) # rest)))])\<rparr>)"
proof (cases "rest = []")
  case True
  with assms have "s' = s\<lparr>uploads := store_blobs [(name, now, rnd)] (uploads s)\<rparr>"
    and "res = upload_success 1
                 (BASE_URL s @ ''/download-file/'' @ storage_filename now rnd name)
                 (toDataURL (BASE_URL s @ ''/download-file/'' @ storage_filename now rnd name))
                 (diskStorage [(name, now, rnd)])"
    by (simp_all add: upload_route_single Let_def)
  with True show ?thesis by (simp add: upload_success_def diskStorage_def)
next
  case ne: False
  show ?thesis
  proof (cases "length ((name, now, rnd) # rest) \<le> MAX_FILE_COUNT")
    case le: True
    then have lt: "length rest < MAX_FILE_COUNT" by simp
    let ?parts = "(name, now, rnd) # rest"
    let ?m = "(fileGroupMap s)(uniqueID now rnd \<mapsto> map filename (diskStorage ?parts))"
    from assms upload_route_group [OF ne lt, of toDataURL outcome name now rnd s]
    have res: "res = upload_success (length ?parts)
                 (BASE_URL s @ ''/download-group/'' @ uniqueID now rnd)
                 (toDataURL (BASE_URL s @ ''/download-group/'' @ uniqueID now rnd))
                 (diskStorage ?parts)"
      and m: "fileGroupMap s' = ?m"
      and d: "data_file s' = (case outcome of WriteOk \<Rightarrow> Document ?m | WriteFailed left \<Rightarrow> left)"
      by (auto simp: Let_def saveFileGroupMap_def split: write_result.splits)
    have names: "map filename (diskStorage ?parts)
                   = map (\<lambda>(name, now, rnd). storage_filename now rnd name) ?parts"
      by (rule filename_diskStorage)
    have orig: "map (\<lambda>f. JString (originalname f)) (diskStorage ?parts)
                  = map (\<lambda>(name, now, rnd). JString name) ?parts"
      by (rule originalname_diskStorage)
    have "fileGroupMap s' = (fileGroupMap s)(uniqueID now rnd \<mapsto>
             map (\<lambda>(name, now, rnd). storage_filename now rnd name) ?parts)"
      using m names by simp
    moreover have "data_file s' = (case outcome of WriteOk \<Rightarrow> Document (fileGroupMap s')
                                   | WriteFailed left \<Rightarrow> left)"
      using d m by (cases outcome) simp_all
    moreover have "res = \<lparr>statusCode = 200,
                 body = JsonBody (JObject
                   [(''message'', JString ''File(s) processed successfully''),
                    (''file_count'', JNumber (length ?parts)),
                    (''download_link'',
                       JString (BASE_URL s @ ''/download-group/'' @ uniqueID now rnd)),
                    (''qr_code'',
                       JString (toDataURL (BASE_URL s @ ''/download-group/'' @ uniqueID now rnd))),
                    (''uploaded_files'',
                       JArray (map (\<lambda>(name, now, rnd). JString name) ?parts))])\<rparr>"
      unfolding res upload_success_def orig by simp
    ultimately show ?thesis using ne by blast
  next
    case False
    with ne show ?thesis by blast
  qed
qed

text \<open>
  The theorem at a batch of one file and at a batch of two files, uploaded to a freshly
  started server with the write succeeding: the responses and the persisted document.
\<close>

theorem upload_single_vs_group_witness:
  "fst (upload_route (\<lambda>link. ''qr:'' @ link) WriteOk
       (Parts [(''a.txt'', 1700000000000, [7, 2, 3])]) (start None NoFile []))
     = \<lparr>statusCode = 200,
        body = JsonBody (JObject
          [(''message'', JString ''File(s) processed successfully''),
           (''file_count'', JNumber 1),
           (''download_link'', JString
              ''https://swiftshare-backend-jxag.onrender.com/download-file/loyw3v28723-a.txt''),
           (''qr_code'', JString
              ''qr:https://swiftshare-backend-jxag.onrender.com/download-file/loyw3v28723-a.txt''),
           (''uploaded_files'', JArray [JString ''a.txt''])])\<rparr>
   \<and> data_file (snd (upload_route (\<lambda>link. ''qr:'' @ link) WriteOk
       (Parts [(''a.txt'', 1700000000000, [7, 2, 3])]) (start None NoFile []))) = NoFile
   \<and> fileGroupMap (snd (upload_route (\<lambda>link. ''qr:'' @ link) WriteOk
       (Parts [(''a.txt'', 1700000000000, [7, 2, 3])]) (start None NoFile []))) = Map.empty
   \<and> fst (upload_route (\<lambda>link. ''qr:'' @ link) WriteOk
       (Parts [(''a.txt'', 1700000000000, [7, 2, 3]), (''b.txt'', 1700000000000, [4, 5, 6])])
       (start None NoFile []))
     = \<lparr>statusCode = 200,
        body = JsonBody (JObject
          [(''message'', JString ''File(s) processed successfully''),
           (''file_count'', JNumber 2),
           (''download_link'', JString
              ''https://swiftshare-backend-jxag.onrender.com/download-group/loyw3v28723''),
           (''qr_code'', JString
              ''qr:https://swiftshare-backend-jxag.onrender.com/download-group/loyw3v28723''),
           (''uploaded_files'', JArray [JString ''a.txt'', JString ''b.txt''])])\<rparr>
   \<and> data_file (snd (upload_route (\<lambda>link. ''qr:'' @ link) WriteOk
       (Parts [(''a.txt'', 1700000000000, [7, 2, 3]), (''b.txt'', 1700000000000, [4, 5, 6])])
       (start None NoFile [])))
     = Document [''loyw3v28723'' \<mapsto> [''loyw3v28723-a.txt'', ''loyw3v28456-b.txt'']]
   \<and> fileGroupMap (snd (upload_route (\<lambda>link. ''qr:'' @ link) WriteOk
       (Parts [(''a.txt'', 1700000000000, [7, 2, 3]), (''b.txt'', 1700000000000, [4, 5, 6])])
       (start None NoFile [])))
     = [''loyw3v28723'' \<mapsto> [''loyw3v28723-a.txt'', ''loyw3v28456-b.txt'']]"
proof -
  let ?s0 = "start None NoFile []"
  let ?q = "\<lambda>link. ''qr:'' @ link"
  have base: "BASE_URL ?s0 = ''https://swiftshare-backend-jxag.onrender.com''"
    and m0: "fileGroupMap ?s0 = Map.empty" and d0: "data_file ?s0 = NoFile"
    by (simp_all add: start_def default_BASE_URL_def loadFileGroupMap_def)
  have name_a: "storage_filename 1700000000000 [7, 2, 3] ''a.txt'' = ''loyw3v28723-a.txt''"
    by (simp add: storage_filename_def uniqueID_example)
  have names: "map (\<lambda>(name, now, rnd). storage_filename now rnd name)
                 [(''a.txt'', 1700000000000, [7, 2, 3]), (''b.txt'', 1700000000000, [4, 5, 6])]
               = [''loyw3v28723-a.txt'', ''loyw3v28456-b.txt'']"
    using diskStorage_example by (simp add: filename_diskStorage)
  have le: "length [(''a.txt'', 1700000000000 :: nat, [7, 2, 3 :: nat]),
                    (''b.txt'', 1700000000000, [4, 5, 6])] \<le> MAX_FILE_COUNT"
    by (simp add: MAX_FILE_COUNT_def)
  note single = upload_single_vs_group [where toDataURL = ?q and outcome = WriteOk
        and name = "''a.txt''" and now = 1700000000000 and rnd = "[7, 2, 3]" and rest = "[]"
        and s = ?s0, OF surjective_pairing]
  note group = upload_single_vs_group [where toDataURL = ?q and outcome = WriteOk
        and name = "''a.txt''" and now = 1700000000000 and rnd = "[7, 2, 3]"
        and rest = "[(''b.txt'', 1700000000000, [4, 5, 6])]"
        and s = ?s0, OF surjective_pairing]
  from single have s1: "fst (upload_route ?q WriteOk
       (Parts [(''a.txt'', 1700000000000, [7, 2, 3])]) ?s0)
     = \<lparr>statusCode = 200,
        body = JsonBody (JObject
          [(''message'', JString ''File(s) processed successfully''),
           (''file_count'', JNumber 1),
           (''download_link'', JString
              ''https://swiftshare-backend-jxag.onrender.com/download-file/loyw3v28723-a.txt''),
           (''qr_code'', JString
              ''qr:https://swiftshare-backend-jxag.onrender.com/download-file/loyw3v28723-a.txt''),
           (''uploaded_files'', JArray [JString ''a.txt''])])\<rparr>"
    and s2: "data_file (snd (upload_route ?q WriteOk
       (Parts [(''a.txt'', 1700000000000, [7, 2, 3])]) ?s0)) = NoFile"
    and s3: "fileGroupMap (snd (upload_route ?q WriteOk
       (Parts [(''a.txt'', 1700000000000, [7, 2, 3])]) ?s0)) = Map.empty"
    by (simp_all add: base m0 d0 name_a)
  from group le have g3: "fileGroupMap (snd (upload_route ?q WriteOk
       (Parts [(''a.txt'', 1700000000000, [7, 2, 3]), (''b.txt'', 1700000000000, [4, 5, 6])])
       ?s0))
     = [''loyw3v28723'' \<mapsto> [''loyw3v28723-a.txt'', ''loyw3v28456-b.txt'']]"
    unfolding names by (simp add: m0 uniqueID_example)
  from group le have g2: "data_file (snd (upload_route ?q WriteOk
       (Parts [(''a.txt'', 1700000000000, [7, 2, 3]), (''b.txt'', 1700000000000, [4, 5, 6])])
       ?s0))
     = Document [''loyw3v28723'' \<mapsto> [''loyw3v28723-a.txt'', ''loyw3v28456-b.txt'']]"
    unfolding g3 [symmetric] by simp
  from group le have g1: "fst (upload_route ?q WriteOk
       (Parts [(''a.txt'', 1700000000000, [7, 2, 3]), (''b.txt'', 1700000000000, [4, 5, 6])])
       ?s0)
     = \<lparr>statusCode = 200,
        body = JsonBody (JObject
          [(''message'', JString ''File(s) processed successfully''),
           (''file_count'', JNumber 2),
           (''download_link'', JString
              ''https://swiftshare-backend-jxag.onrender.com/download-group/loyw3v28723''),
           (''qr_code'', JString
              ''qr:https://swiftshare-backend-jxag.onrender.com/download-group/loyw3v28723''),
           (''uploaded_files'', JArray [JString ''a.txt'', JString ''b.txt''])])\<rparr>"
    by (simp add: base uniqueID_example)
  from s1 s2 s3 g1 g2 g3 show ?thesis by (intro conjI)
qed

text \<open>
  C8, as the code has it. When the write of the group map to \<^verbatim>\<open>DATA_FILE\<close> fails during
  an upload of two to four files, \<^verbatim>\<open>saveFileGroupMap\<close> catches the error and logs it:
  the client receives the same response as when the write succeeds, the success response
  with status 200 and the group link, and the in-memory map has the new entry.
\<close>

theorem save_failure_not_reported:
  assumes "rest \<noteq> []" and "length ((name, now, rnd) # rest) \<le> MAX_FILE_COUNT"
  shows "fst (upload_route toDataURL (WriteFailed left) (Parts ((name, now, rnd) # rest)) s)
           = fst (upload_route toDataURL WriteOk (Parts ((name, now, rnd) # rest)) s)
       \<and> fst (upload_route toDataURL (WriteFailed left) (Parts ((name, now, rnd) # rest)) s)
           = \<lparr>statusCode = 200,
              body = JsonBody (JObject
                [(''message'', JString ''File(s) processed successfully''),
                 (''file_count'', JNumber (length ((name, now, rnd) # rest))),
                 (''download_link'',
                    JString (BASE_URL s @ ''/download-group/'' @ uniqueID now rnd)),
                 (''qr_code'',
                    JString (toDataURL (BASE_URL s @ ''/download-group/'' @ uniqueID now rnd))),
                 (''uploaded_files'',
                    JArray (map (\<lambda>(name, now, rnd). JString name)
                              ((name, now, rnd) # rest)))])\<rparr>
       \<and> fileGroupMap (snd (upload_route toDataURL (WriteFailed left)
                               (Parts ((name, now, rnd) # rest)) s))
           = (fileGroupMap s)(uniqueID now rnd \<mapsto>
                map filename (diskStorage ((name, now, rnd) # rest)))
       \<and> ConsoleError ''Error saving file group map:''
           \<in> set (console (snd (upload_route toDataURL (WriteFailed left)
                                   (Parts ((name, now, rnd) # rest)) s)))"
proof -
  from assms(2) have lt: "length rest < MAX_FILE_COUNT" by simp
  have orig: "map (\<lambda>f. JString (originalname f)) (diskStorage ((name, now, rnd) # rest))
                = map (\<lambda>(name, now, rnd). JString name) ((name, now, rnd) # rest)"
    by (rule originalname_diskStorage)
  show ?thesis
    unfolding upload_route_group [OF assms(1) lt] Let_def
    using orig by (simp add: saveFileGroupMap_def upload_success_def)
qed

text \<open>
  The theorem at a batch of two files uploaded to a freshly started server, where the
  file cannot be opened for writing and stays absent.
\<close>

theorem save_failure_not_reported_witness:
  "[(''b.txt'', 1700000000000 :: nat, [4, 5, 6 :: nat])] \<noteq> []
   \<and> fst (upload_route (\<lambda>link. ''qr:'' @ link) (WriteFailed NoFile)
        (Parts [(''a.txt'', 1700000000000, [7, 2, 3]), (''b.txt'', 1700000000000, [4, 5, 6])])
        (start None NoFile []))
     = \<lparr>statusCode = 200,
        body = JsonBody (JObject
          [(''message'', JString ''File(s) processed successfully''),
           (''file_count'', JNumber 2),
           (''download_link'', JString
              ''https://swiftshare-backend-jxag.onrender.com/download-group/loyw3v28723''),
           (''qr_code'', JString
              ''qr:https://swiftshare-backend-jxag.onrender.com/download-group/loyw3v28723''),
           (''uploaded_files'', JArray [JString ''a.txt'', JString ''b.txt''])])\<rparr>
   \<and> ConsoleError ''Error saving file group map:''
       \<in> set (console (snd (upload_route (\<lambda>link. ''qr:'' @ link) (WriteFailed NoFile)
        (Parts [(''a.txt'', 1700000000000, [7, 2, 3]), (''b.txt'', 1700000000000, [4, 5, 6])])
        (start None NoFile []))))"
proof -
  have ne: "[(''b.txt'', 1700000000000 :: nat, [4, 5, 6 :: nat])] \<noteq> []" by simp
  have le: "length [(''a.txt'', 1700000000000 :: nat, [7, 2, 3 :: nat]),
                    (''b.txt'', 1700000000000, [4, 5, 6])] \<le> MAX_FILE_COUNT"
    by (simp add: MAX_FILE_COUNT_def)
  have base: "BASE_URL (start None NoFile []) = ''https://swiftshare-backend-jxag.onrender.com''"
    by (simp add: start_def default_BASE_URL_def)
  note h = save_failure_not_reported [OF ne le, of "\<lambda>link. ''qr:'' @ link" NoFile
      "start None NoFile []"]
  from h [THEN conjunct2, THEN conjunct1]
  have "fst (upload_route (\<lambda>link. ''qr:'' @ link) (WriteFailed NoFile)
        (Parts [(''a.txt'', 1700000000000, [7, 2, 3]), (''b.txt'', 1700000000000, [4, 5, 6])])
        (start None NoFile []))
     = \<lparr>statusCode = 200,
        body = JsonBody (JObject
          [(''message'', JString ''File(s) processed successfully''),
           (''file_count'', JNumber 2),
           (''download_link'', JString
              ''https://swiftshare-backend-jxag.onrender.com/download-group/loyw3v28723''),
           (''qr_code'', JString
              ''qr:https://swiftshare-backend-jxag.onrender.com/download-group/loyw3v28723''),
           (''uploaded_files'', JArray [JString ''a.txt'', JString ''b.txt''])])\<rparr>"
    by (simp add: base uniqueID_example)
  moreover from h have "ConsoleError ''Error saving file group map:''
       \<in> set (console (snd (upload_route (\<lambda>link. ''qr:'' @ link) (WriteFailed NoFile)
        (Parts [(''a.txt'', 1700000000000, [7, 2, 3]), (''b.txt'', 1700000000000, [4, 5, 6])])
        (start None NoFile []))))"
    by blast
  ultimately show ?thesis using ne by blast
qed

text \<open>
  C8 as stated fails: with the write failing, the upload of two files is answered with
  status 200, not with a server error.
\<close>

theorem save_failure_returns_200:
  "statusCode (fst (upload_route (\<lambda>link. link) (WriteFailed NoFile)
        (Parts [(''a.txt'', 1700000000000, [7, 2, 3]), (''b.txt'', 1700000000000, [4, 5, 6])])
        (start None NoFile []))) = 200
   \<and> \<not> 500 \<le> statusCode (fst (upload_route (\<lambda>link. link) (WriteFailed NoFile)
        (Parts [(''a.txt'', 1700000000000, [7, 2, 3]), (''b.txt'', 1700000000000, [4, 5, 6])])
        (start None NoFile [])))"
  by (simp add: upload_route_group Let_def upload_success_def MAX_FILE_COUNT_def)

text \<open>
  C10. When an upload request changes the entry of a group id \<open>g\<close>, the request has
  stored a batch of at least two files and the entry is the list of all stored names of
  the batch. From then on, after any further requests to the four routes, \<open>g\<close> has an
  entry of at least two stored names, so the group download and the group info never
  answer it with their not-found response: the test for an empty entry is never true.
\<close>

theorem upload_entries_at_least_two:
  assumes "upload_route toDataURL write_ok req s = (res, s')"
    and "fileGroupMap s' g \<noteq> fileGroupMap s g"
  shows "\<exists>parts. req = Parts parts \<and> 2 \<le> length parts
           \<and> fileGroupMap s' g = Some (map filename (diskStorage parts))
           \<and> (\<forall>later. \<exists>fs. fileGroupMap (run toDataURL later s') g = Some fs
                  \<and> 2 \<le> length fs
                  \<and> statusCode (fst (download_group g (run toDataURL later s'))) = 200
                  \<and> statusCode (fst (group_info g (run toDataURL later s'))) = 200)"
proof -
  from assms(1) have s': "s' = snd (upload_route toDataURL write_ok req s)" by simp
  from assms(2) obtain name now rnd nxt rest where
    req: "req = Parts ((name, now, rnd) # nxt # rest)"
    and le: "length rest + 2 \<le> MAX_FILE_COUNT"
    unfolding s' upload_route_fileGroupMap
    by (auto split: upload_request.splits list.splits prod.splits if_splits)
  let ?parts = "(name, now, rnd) # nxt # rest"
  have m: "fileGroupMap s' = (fileGroupMap s)(uniqueID now rnd \<mapsto> map filename (diskStorage ?parts))"
    unfolding s' upload_route_fileGroupMap req using le by simp
  with assms(2) have g: "g = uniqueID now rnd" by (auto split: if_splits)
  have entry: "fileGroupMap s' g = Some (map filename (diskStorage ?parts))"
    using m g by simp
  then have ok: "entry_ok s' g" by (simp add: entry_ok_def diskStorage_def)
  have later: "\<exists>fs. fileGroupMap (run toDataURL later s') g = Some fs
                  \<and> 2 \<le> length fs
                  \<and> statusCode (fst (download_group g (run toDataURL later s'))) = 200
                  \<and> statusCode (fst (group_info g (run toDataURL later s'))) = 200" for later
  proof -
    have ok': "entry_ok (run toDataURL later s') g"
      using ok by (rule run_entry_ok)
    then obtain fs where "fileGroupMap (run toDataURL later s') g = Some fs" "2 \<le> length fs"
      by (auto simp: entry_ok_def split: option.splits)
    with entry_ok_routes [OF ok'] show ?thesis by simp
  qed
  show ?thesis
    using req entry later by (intro exI [of _ ?parts]) simp
qed

text \<open>The theorem at the upload of two files to a freshly started server.\<close>

theorem upload_entries_at_least_two_witness:
  "fileGroupMap (snd (upload_route (\<lambda>link. link) WriteOk
       (Parts [(''a.txt'', 1700000000000, [7, 2, 3]), (''b.txt'', 1700000000000, [4, 5, 6])])
       (start None NoFile []))) ''loyw3v28723''
     \<noteq> fileGroupMap (start None NoFile []) ''loyw3v28723''
   \<and> statusCode (fst (download_group ''loyw3v28723'' (snd (upload_route (\<lambda>link. link) WriteOk
       (Parts [(''a.txt'', 1700000000000, [7, 2, 3]), (''b.txt'', 1700000000000, [4, 5, 6])])
       (start None NoFile []))))) = 200
   \<and> statusCode (fst (group_info ''loyw3v28723'' (snd (upload_route (\<lambda>link. link) WriteOk
       (Parts [(''a.txt'', 1700000000000, [7, 2, 3]), (''b.txt'', 1700000000000, [4, 5, 6])])
       (start None NoFile []))))) = 200"
proof -
  let ?s' = "snd (upload_route (\<lambda>link. link) WriteOk
       (Parts [(''a.txt'', 1700000000000, [7, 2, 3]), (''b.txt'', 1700000000000, [4, 5, 6])])
       (start None NoFile []))"
  have changed: "fileGroupMap ?s' ''loyw3v28723'' \<noteq> fileGroupMap (start None NoFile []) ''loyw3v28723''"
    by (simp add: upload_route_fileGroupMap uniqueID_example start_def loadFileGroupMap_def
          MAX_FILE_COUNT_def)
  from upload_entries_at_least_two [OF surjective_pairing changed]
  have "\<forall>later. \<exists>fs. fileGroupMap (run (\<lambda>link. link) later ?s') ''loyw3v28723'' = Some fs
                  \<and> 2 \<le> length fs
                  \<and> statusCode (fst (download_group ''loyw3v28723'' (run (\<lambda>link. link) later ?s'))) = 200
                  \<and> statusCode (fst (group_info ''loyw3v28723'' (run (\<lambda>link. link) later ?s'))) = 200"
    by blast
  then have "statusCode (fst (download_group ''loyw3v28723'' (run (\<lambda>link. link) [] ?s'))) = 200
     \<and> statusCode (fst (group_info ''loyw3v28723'' (run (\<lambda>link. link) [] ?s'))) = 200"
    by blast
  with changed show ?thesis by simp
qed

text \<open>
  C6. In every state the server reaches from a start without a persisted document by
  requests to its routes, whatever blobs the uploads folder holds at the time of the
  download, the group download of a group id present in the group map answers with
  status 200 and an archive holding exactly the entries whose blobs exist, in the order
  of the entry, each under the original name recovered from its stored name (archiver
  names an entry by its path when that name is empty); for every entry whose blob is
  missing a warning is logged and nothing else happens.
\<close>

theorem group_archive_existing_blobs:
  assumes "fileGroupMap (run toDataURL rs (start env NoFile blobs)) g = Some files"
  shows "download_group g ((run toDataURL rs (start env NoFile blobs))\<lparr>uploads := present\<rparr>) =
     (\<lparr>statusCode = 200,
       body = ArchiveBody (''SwiftShare_Files_'' @ g @ ''.zip'')
                (map (\<lambda>f. (path_join uploadFolder f,
                           if originalName_of f = [] then path_join uploadFolder f
                           else originalName_of f))
                   (filter (\<lambda>f. f \<in> fst ` set present) files))\<rparr>,
      (run toDataURL rs (start env NoFile blobs))
        \<lparr>uploads := present,
          console := console (run toDataURL rs (start env NoFile blobs)) @
            map (\<lambda>f. ConsoleWarn (''File not found on server: '' @ path_join uploadFolder f))
              (filter (\<lambda>f. f \<notin> fst ` set present) files)\<rparr>)"
proof -
  let ?s = "run toDataURL rs (start env NoFile blobs)"
  have "entries_ok ?s" using start_entries_ok by (rule run_entries_ok)
  with assms have "2 \<le> length files" by (simp add: entries_ok_def)
  then have ne: "files \<noteq> []" by auto
  have entry: "fileGroupMap (?s\<lparr>uploads := present\<rparr>) g = Some files" using assms by simp
  show ?thesis
    unfolding download_group_nonempty [OF entry ne] by (simp add: entry_name_def)
qed

text \<open>
  The theorem after the upload of two files to a freshly started server, when the blob
  of the first file is gone at the time of the download.
\<close>

theorem group_archive_existing_blobs_witness:
  "fileGroupMap (run (\<lambda>link. link)
       [Upload WriteOk (Parts [(''a.txt'', 1700000000000, [7, 2, 3]),
                               (''b.txt'', 1700000000000, [4, 5, 6])])]
       (start None NoFile [])) ''loyw3v28723''
     = Some [''loyw3v28723-a.txt'', ''loyw3v28456-b.txt'']
   \<and> fst (download_group ''loyw3v28723''
       ((run (\<lambda>link. link)
          [Upload WriteOk (Parts [(''a.txt'', 1700000000000, [7, 2, 3]),
                                  (''b.txt'', 1700000000000, [4, 5, 6])])]
          (start None NoFile []))\<lparr>uploads := [(''loyw3v28456-b.txt'', 1700000000000)]\<rparr>))
     = \<lparr>statusCode = 200,
        body = ArchiveBody ''SwiftShare_Files_loyw3v28723.zip''
                 [(''__dirname/uploads/loyw3v28456-b.txt'', ''b.txt'')]\<rparr>"
proof -
  let ?s = "run (\<lambda>link. link)
       [Upload WriteOk (Parts [(''a.txt'', 1700000000000, [7, 2, 3]),
                               (''b.txt'', 1700000000000, [4, 5, 6])])]
       (start None NoFile [])"
  have entry: "fileGroupMap ?s ''loyw3v28723''
                 = Some [''loyw3v28723-a.txt'', ''loyw3v28456-b.txt'']"
    by (simp add: serve_def upload_route_fileGroupMap MAX_FILE_COUNT_def uniqueID_example
          diskStorage_example)
  show ?thesis
    unfolding group_archive_existing_blobs [OF entry]
    using entry
    by (simp add: path_join_def uploadFolder_def originalName_of_def slice_from_def)
qed

text \<open>
  C7 fails in the code. For a group id that is not in the group map, the group download
  answers 404 with the plain text \<^verbatim>\<open>File group not found or empty.\<close>, while the group
  info route answers the same request with a JSON object.
\<close>

theorem group_download_not_found_is_text:
  "fst (download_group ''nosuchgroup'' (start None NoFile []))
     = \<lparr>statusCode = 404, body = TextBody ''File group not found or empty.''\<rparr>
   \<and> fst (group_info ''nosuchgroup'' (start None NoFile []))
     = \<lparr>statusCode = 404, body = JsonBody (JObject [(''error'', JString ''File group not found'')])\<rparr>"
  by (simp add: download_group_def group_info_def read_group_def Object_prototype_def
        start_def loadFileGroupMap_def group_not_found_text_def group_not_found_json_def)

text \<open>
  C1 fails in the code. With one blob that is 25 hours old in the uploads folder, a run
  of \<^verbatim>\<open>cleanupOldFiles\<close> throws the \<^verbatim>\<open>ReferenceError\<close> for \<^verbatim>\<open>uploadDir\<close> and leaves the
  blob in place; the per-file processing, run on \<^verbatim>\<open>uploadFolder\<close>, deletes it.
\<close>

theorem cleanup_deletes_nothing:
  "cleanupOldFiles no_faults 90000000 (start None NoFile [(''old.bin'', 0)])
     = (Some (ReferenceError ''uploadDir''),
        (start None NoFile [(''old.bin'', 0)])\<lparr>console := [ConsoleLog ''Running cleanup check...'']\<rparr>)
   \<and> ageHours 90000000 0 = 25
   \<and> uploads (snd (cleanupOldFiles no_faults 90000000 (start None NoFile [(''old.bin'', 0)])))
       = [(''old.bin'', 0)]
   \<and> uploads (sweep_files no_faults 90000000 uploadFolder [''old.bin'']
                (start None NoFile [(''old.bin'', 0)])) = []"
  by (simp add: cleanupOldFiles_throws start_def ageHours_def no_faults_def stat_mtimeMs_def
        unlink_def FILE_EXPIRY_HOURS_def)

text \<open>
  C2 fails in the code. Whatever the file system does, a run of \<^verbatim>\<open>cleanupOldFiles\<close>
  throws the \<^verbatim>\<open>ReferenceError\<close> for \<^verbatim>\<open>uploadDir\<close> right after its first log line, before
  any file is read, and the tick of the interval timer that made the call ends the
  process with that exception.
\<close>

theorem sweep_run_ends_process:
  "cleanupOldFiles flt now s
     = (Some (ReferenceError ''uploadDir''),
        s\<lparr>console := console s @ [ConsoleLog ''Running cleanup check...'']\<rparr>)
   \<and> timer_tick flt now (Running s) = Crashed (ReferenceError ''uploadDir'')"
  by (simp add: timer_tick_def cleanupOldFiles_throws)

end
